theory Spec2Isabelle
  imports Main
begin

section \<open>The JavaScript values the ticket code computes with\<close>

text \<open>
  The handlers of \<^verbatim>\<open>ticketController.js\<close> and the hooks of \<^verbatim>\<open>models/Ticket.js\<close>
  use a handful of runtime functions: \<^verbatim>\<open>String\<close>, \<^verbatim>\<open>padStart\<close>, \<^verbatim>\<open>split\<close>,
  \<^verbatim>\<open>parseInt\<close>, \<^verbatim>\<open>trim\<close>, \<^verbatim>\<open>toLowerCase\<close> and number addition. A number is an
  integer or \<^verbatim>\<open>NaN\<close>; \<^verbatim>\<open>undefined\<close> is \<open>None\<close>. A character of a string is a code
  unit below 256, so \<open>length\<close> counts what \<^verbatim>\<open>.length\<close> counts.
\<close>

datatype jsnum = Num int | NaN

fun jsadd :: "jsnum \<Rightarrow> jsnum \<Rightarrow> jsnum" where
  "jsadd (Num a) (Num b) = Num (a + b)"
| "jsadd _ _ = NaN"

definition digitChar :: "nat \<Rightarrow> char" where
  "digitChar d = char_of (of_char (CHR ''0'') + d)"

fun natToString :: "nat \<Rightarrow> string" where
  "natToString n = (if n < 10 then [digitChar n] else natToString (n div 10) @ [digitChar (n mod 10)])"

declare natToString.simps [simp del]

definition numToString :: "jsnum \<Rightarrow> string" where
  "numToString x = (case x of NaN \<Rightarrow> ''NaN''
     | Num i \<Rightarrow> if i < 0 then CHR ''-'' # natToString (nat (- i)) else natToString (nat i))"

definition padStart :: "nat \<Rightarrow> char \<Rightarrow> string \<Rightarrow> string" where
  "padStart n c s = replicate (n - length s) c @ s"

fun split :: "char \<Rightarrow> string \<Rightarrow> string list" where
  "split sep [] = [[]]"
| "split sep (c # cs) =
     (if c = sep then [] # split sep cs
      else (case split sep cs of [] \<Rightarrow> [[c]] | p # ps \<Rightarrow> (c # p) # ps))"

definition at :: "'a list \<Rightarrow> nat \<Rightarrow> 'a option" where
  "at xs i = (if i < length xs then Some (xs ! i) else None)"

text \<open>
  The white space and line terminators that \<^verbatim>\<open>trim\<close> and \<^verbatim>\<open>parseInt\<close> strip: below
  256 these are TAB, LF, VT, FF, CR, the space and the no-break space U+00A0.
\<close>

definition isWhite :: "char \<Rightarrow> bool" where
  "isWhite c = (c \<in> set [CHR '' '', CHR 0x09, CHR 0x0A, CHR 0x0B, CHR 0x0C, CHR 0x0D, CHR 0xA0])"

definition trim :: "string \<Rightarrow> string" where
  "trim s = rev (dropWhile isWhite (rev (dropWhile isWhite s)))"

definition charCode :: "char \<Rightarrow> nat" where
  "charCode c = of_char c"

definition inRange :: "char \<Rightarrow> char \<Rightarrow> char \<Rightarrow> bool" where
  "inRange lo hi c = (charCode lo \<le> charCode c \<and> charCode c \<le> charCode hi)"

text \<open>
  The letters with a lower case below 256 are A to Z and U+00C0 to U+00DE without the
  multiplication sign U+00D7; the lower case is 32 further on.
\<close>

definition isUpper :: "char \<Rightarrow> bool" where
  "isUpper c = (inRange (CHR ''A'') (CHR ''Z'') c
                \<or> (inRange (CHR 0xC0) (CHR 0xDE) c \<and> c \<noteq> CHR 0xD7))"

definition toLowerCase :: "string \<Rightarrow> string" where
  "toLowerCase s = map (\<lambda>c. if isUpper c then char_of (charCode c + 32) else c) s"

definition digitVal :: "char \<Rightarrow> nat option" where
  "digitVal c =
     (if inRange (CHR ''0'') (CHR ''9'') c then Some (charCode c - charCode (CHR ''0''))
      else if inRange (CHR ''a'') (CHR ''f'') c then Some (charCode c - charCode (CHR ''a'') + 10)
      else if inRange (CHR ''A'') (CHR ''F'') c then Some (charCode c - charCode (CHR ''A'') + 10)
      else None)"

definition isDigitIn :: "nat \<Rightarrow> char \<Rightarrow> bool" where
  "isDigitIn radix c = (case digitVal c of None \<Rightarrow> False | Some d \<Rightarrow> d < radix)"

definition digitsValue :: "nat \<Rightarrow> string \<Rightarrow> nat" where
  "digitsValue radix ds = foldl (\<lambda>acc c. acc * radix + (case digitVal c of None \<Rightarrow> 0 | Some d \<Rightarrow> d)) 0 ds"

text \<open>
  \<^verbatim>\<open>parseInt(x)\<close> with no radix: \<^verbatim>\<open>undefined\<close> is converted to the string
  \<^verbatim>\<open>"undefined"\<close>, which has no digits, so the result is \<^verbatim>\<open>NaN\<close>. A string is
  read after its leading white space: an optional sign, an optional \<^verbatim>\<open>0x\<close> prefix
  (radix 16), then the longest run of digits; no digit gives \<^verbatim>\<open>NaN\<close>.
\<close>

definition parseIntString :: "string \<Rightarrow> jsnum" where
  "parseIntString s =
     (let s1 = dropWhile isWhite s;
          neg = (case s1 of c # _ \<Rightarrow> c = CHR ''-'' | [] \<Rightarrow> False);
          s2 = (case s1 of c # r \<Rightarrow> if c = CHR ''-'' \<or> c = CHR ''+'' then r else s1 | [] \<Rightarrow> s1);
          hex = (take 2 s2 = ''0x'' \<or> take 2 s2 = ''0X'');
          radix = (if hex then 16 else 10);
          s3 = (if hex then drop 2 s2 else s2);
          ds = takeWhile (isDigitIn radix) s3
      in if ds = [] then NaN
         else Num ((if neg then - 1 else 1) * int (digitsValue radix ds)))"

definition parseInt :: "string option \<Rightarrow> jsnum" where
  "parseInt x = (case x of None \<Rightarrow> NaN | Some s \<Rightarrow> parseIntString s)"

text \<open>A string is falsy when it is \<^verbatim>\<open>undefined\<close> or empty.\<close>

definition truthy :: "string option \<Rightarrow> bool" where
  "truthy x = (case x of None \<Rightarrow> False | Some s \<Rightarrow> s \<noteq> [])"

section \<open>Dates\<close>

text \<open>
  A \<^verbatim>\<open>Date\<close> is read in local time as the code reads it: \<open>getFullYear\<close>,
  \<open>getMonth\<close> (0 to 11), \<open>getDate\<close>, and the milliseconds since local midnight.
  \<^verbatim>\<open>setHours(0, 0, 0, 0)\<close> and \<^verbatim>\<open>setHours(23, 59, 59, 999)\<close> replace the last
  component. Each run of a hook or handler reads the clock once (\<open>now\<close>).
\<close>

record jsdate =
  getFullYear :: nat
  getMonth :: nat
  getDate :: nat
  msOfDay :: nat

definition date_le :: "jsdate \<Rightarrow> jsdate \<Rightarrow> bool" where
  "date_le a b =
     (getFullYear a < getFullYear b \<or> (getFullYear a = getFullYear b \<and>
       (getMonth a < getMonth b \<or> (getMonth a = getMonth b \<and>
         (getDate a < getDate b \<or> (getDate a = getDate b \<and> msOfDay a \<le> msOfDay b))))))"

definition startOfDay :: "jsdate \<Rightarrow> jsdate" where
  "startOfDay d = d\<lparr>msOfDay := 0\<rparr>"

definition endOfDay :: "jsdate \<Rightarrow> jsdate" where
  "endOfDay d = d\<lparr>msOfDay := ((23 * 60 + 59) * 60 + 59) * 1000 + 999\<rparr>"

section \<open>The ticket schema\<close>

type_synonym oid = nat

datatype role = RoleUser | RoleAdmin

datatype status = Open | InProgress | WaitingForResponse | Resolved | Closed

datatype priority = PLow | PMedium | PHigh | PCritical

datatype level = LLow | LMedium | LHigh

datatype category =
    TechnicalIssue | SoftwareInstallation | HardwareProblem | NetworkIssue
  | AccountAccess | EmailProblem | PrinterIssue | MobileDevice
  | SecurityConcern | TrainingRequest | GeneralInquiry | Other

record attachment =
  filename :: string
  originalName :: string
  path :: string
  fileSize :: nat
  mimetype :: string
  uploadedAt :: jsdate

record comment =
  c_user :: oid
  c_message :: string
  c_isInternal :: bool
  c_createdAt :: jsdate

text \<open>
  A ticket document. \<open>ticketNumber\<close> is \<open>None\<close> on a document that has none yet
  (\<^verbatim>\<open>new Ticket({...})\<close> in \<open>createTicket\<close>). Object ids are taken as well formed:
  they are numbers here, and a new document gets the next one. \<open>createdAt\<close> is the
  timestamp the schema option \<^verbatim>\<open>timestamps: true\<close> writes at insertion;
  \<^verbatim>\<open>updatedAt\<close>, which no handler or hook reads, is left out.
\<close>

record ticket =
  ticket_id :: oid
  ticketNumber :: "string option"
  title :: string
  description :: string
  category :: category
  priority :: priority
  status :: status
  createdBy :: oid
  assignedTo :: "oid option"
  attachments :: "attachment list"
  comments :: "comment list"
  resolution :: "string option"
  resolvedAt :: "jsdate option"
  closedAt :: "jsdate option"
  estimatedResolutionTime :: "jsdate option"
  tags :: "string list"
  impact :: level
  urgency :: level
  createdAt :: jsdate

text \<open>The collection is the list of its documents in insertion order.\<close>

type_synonym store = "ticket list"

fun findById :: "oid \<Rightarrow> store \<Rightarrow> ticket option" where
  "findById i [] = None"
| "findById i (t # ts) = (if ticket_id t = i then Some t else findById i ts)"

fun replaceById :: "oid \<Rightarrow> ticket \<Rightarrow> store \<Rightarrow> store" where
  "replaceById i t' [] = []"
| "replaceById i t' (t # ts) = (if ticket_id t = i then t' # ts else t # replaceById i t' ts)"

definition numberTaken :: "string option \<Rightarrow> store \<Rightarrow> bool" where
  "numberTaken n db = (n \<in> set (map ticketNumber db))"

section \<open>The hooks of the schema\<close>

text \<open>
  \<^verbatim>\<open>findOne({createdAt: {$gte: startOfDay, $lte: endOfDay}}).sort({createdAt: -1})\<close>:
  the document of the day window with the greatest \<open>createdAt\<close>; among equal
  timestamps the model takes the one stored first.
\<close>

fun latest :: "ticket list \<Rightarrow> ticket option" where
  "latest [] = None"
| "latest (t # ts) =
     (case latest ts of None \<Rightarrow> Some t
      | Some u \<Rightarrow> if date_le (createdAt u) (createdAt t) then Some t else Some u)"

definition findLastToday :: "jsdate \<Rightarrow> store \<Rightarrow> ticket option" where
  "findLastToday now db =
     latest (filter (\<lambda>t. date_le (startOfDay now) (createdAt t) \<and> date_le (createdAt t) (endOfDay now)) db)"

definition nextSequence :: "ticket option \<Rightarrow> jsnum" where
  "nextSequence lastTicket =
     (case lastTicket of None \<Rightarrow> Num 1
      | Some l \<Rightarrow>
          if truthy (ticketNumber l)
          then (let lastSequence = parseInt (at (split (CHR ''-'') (the (ticketNumber l))) 3)
                in jsadd lastSequence (Num 1))
          else Num 1)"

definition ticketNumberHook :: "jsdate \<Rightarrow> store \<Rightarrow> ticket \<Rightarrow> ticket" where
  "ticketNumberHook now db this =
     (if \<not> truthy (ticketNumber this) then
        (let year = natToString (getFullYear now);
             month = padStart 2 (CHR ''0'') (natToString (getMonth now + 1));
             day = padStart 2 (CHR ''0'') (natToString (getDate now));
             sequenceNumber = nextSequence (findLastToday now db)
         in this\<lparr>ticketNumber :=
              Some (''TKT-'' @ year @ month @ day @ ''-'' @ padStart 4 (CHR ''0'') (numToString sequenceNumber))\<rparr>)
      else this)"

text \<open>
  The second hook; \<open>statusModified\<close> is \<^verbatim>\<open>this.isModified('status')\<close>.
\<close>

definition timestampHook :: "bool \<Rightarrow> jsdate \<Rightarrow> ticket \<Rightarrow> ticket" where
  "timestampHook statusModified now this =
     (if statusModified then
        (if status this = Resolved \<and> resolvedAt this = None then this\<lparr>resolvedAt := Some now\<rparr>
         else if status this = Closed \<and> closedAt this = None then this\<lparr>closedAt := Some now\<rparr>
         else this)
      else this)"


text \<open>
  What a store call throws; every handler catches it and answers 500.
\<close>

datatype thrown = ValidationError | CastError | DuplicateKey | TypeError

text \<open>
  Schema validation of a new document: the \<^verbatim>\<open>required\<close> and \<^verbatim>\<open>maxlength\<close>
  validators (the enumerations hold by type).
\<close>

definition validComment :: "comment \<Rightarrow> bool" where
  "validComment c = (c_message c \<noteq> [] \<and> length (c_message c) \<le> 1000)"

definition validateNew :: "ticket \<Rightarrow> bool" where
  "validateNew t =
     (truthy (ticketNumber t)
      \<and> title t \<noteq> [] \<and> length (title t) \<le> 200
      \<and> description t \<noteq> [] \<and> length (description t) \<le> 2000
      \<and> list_all validComment (comments t)
      \<and> (case resolution t of None \<Rightarrow> True | Some r \<Rightarrow> length r \<le> 1000))"

text \<open>
  \<^verbatim>\<open>ticket.save()\<close>. The store library validates the document first (validation is
  the first \<open>save\<close> hook, ahead of the hooks a schema registers with
  \<^verbatim>\<open>pre('save')\<close>), then runs the two hooks of the schema in the order they are
  registered, then writes under the unique index on \<open>ticketNumber\<close>. So the
  \<^verbatim>\<open>required\<close> check of \<open>ticketNumber\<close> sees the document as it is before the number
  hook. For a stored document the required paths and the modified paths are validated
  (the caller passes the outcome for the modified ones as \<open>valid\<close>), and the index is
  consulted only when the number changed.
\<close>

definition runHooks :: "bool \<Rightarrow> jsdate \<Rightarrow> store \<Rightarrow> ticket \<Rightarrow> ticket" where
  "runHooks statusModified now db this = timestampHook statusModified now (ticketNumberHook now db this)"

definition saveNew :: "jsdate \<Rightarrow> ticket \<Rightarrow> store \<Rightarrow> thrown + (ticket \<times> store)" where
  "saveNew now this db =
     (if \<not> validateNew this then Inl ValidationError
      else (let t = runHooks False now db this in
            if numberTaken (ticketNumber t) db then Inl DuplicateKey
            else (let t' = t\<lparr>createdAt := now\<rparr> in Inr (t', db @ [t']))))"

definition saveExisting :: "bool \<Rightarrow> bool \<Rightarrow> jsdate \<Rightarrow> ticket \<Rightarrow> store \<Rightarrow> thrown + (ticket \<times> store)" where
  "saveExisting statusModified valid now this db =
     (if valid \<and> truthy (ticketNumber this) then
        (let t = runHooks statusModified now db this in
         if ticketNumber t \<noteq> ticketNumber this
            \<and> numberTaken (ticketNumber t) (filter (\<lambda>u. ticket_id u \<noteq> ticket_id t) db)
         then Inl DuplicateKey
         else Inr (t, replaceById (ticket_id t) t db))
      else Inl ValidationError)"

section \<open>Requests and responses\<close>

record user =
  user_id :: oid
  user_role :: role

record uploaded =
  f_filename :: string
  f_originalname :: string
  f_path :: string
  f_size :: nat
  f_mimetype :: string

text \<open>
  A request as the handler finds it: the errors the route's validation chain left
  (\<^verbatim>\<open>validationResult(req)\<close>), \<^verbatim>\<open>req.user\<close> as \<open>authenticateToken\<close> set it,
  \<^verbatim>\<open>req.params.id\<close>, the body, and \<^verbatim>\<open>req.files\<close>.
\<close>

record 'b request =
  req_errors :: "string list"
  req_user :: user
  req_id :: oid
  req_body :: 'b
  req_files :: "uploaded list option"

record overview =
  totalTickets :: nat
  openTickets :: nat
  inProgressTickets :: nat
  resolvedTickets :: nat
  closedTickets :: nat

text \<open>
  The JSON body of a response. The \<^verbatim>\<open>error\<close> text of a 500 body, which depends on
  \<^verbatim>\<open>NODE_ENV\<close>, is left out; a populated reference is shown by its id.
\<close>

datatype resbody =
    Message string
  | ValidationFailed "string list"
  | WithTicket string ticket
  | WithNullTicket string
  | JustTicket ticket
  | WithComment string comment
  | Statistics overview "(priority \<times> nat) list" "(category \<times> nat) list"

type_synonym response = "nat \<times> resbody"

section \<open>createTicket\<close>

record createBody =
  b_title :: string
  b_description :: string
  b_category :: category
  b_priority :: "priority option"
  b_impact :: "level option"
  b_urgency :: "level option"
  b_tags :: "string option"

text \<open>
  \<^verbatim>\<open>new Ticket({...})\<close>: the schema setters \<^verbatim>\<open>trim\<close> and \<^verbatim>\<open>lowercase\<close> run on
  assignment and the defaults fill \<open>status\<close> and \<open>assignedTo\<close>. An absent or empty
  option of the body is \<open>None\<close> (both are falsy).
\<close>

definition newTicket :: "jsdate \<Rightarrow> createBody request \<Rightarrow> store \<Rightarrow> ticket" where
  "newTicket now req db =
     (let b = req_body req;
          atts = (case req_files req of None \<Rightarrow> []
                  | Some fs \<Rightarrow> map (\<lambda>file. \<lparr>filename = f_filename file, originalName = f_originalname file,
                                 path = f_path file, fileSize = f_size file, mimetype = f_mimetype file,
                                 uploadedAt = now\<rparr>) fs)
      in \<lparr>ticket_id = length db,
          ticketNumber = None,
          title = trim (b_title b),
          description = trim (b_description b),
          category = b_category b,
          priority = (case b_priority b of None \<Rightarrow> PMedium | Some p \<Rightarrow> p),
          status = Open,
          createdBy = user_id (req_user req),
          assignedTo = None,
          attachments = atts,
          comments = [],
          resolution = None,
          resolvedAt = None,
          closedAt = None,
          estimatedResolutionTime = None,
          tags = (case b_tags b of None \<Rightarrow> []
                  | Some s \<Rightarrow> if s = [] then []
                             else map (\<lambda>tag. toLowerCase (trim (trim tag))) (split (CHR '','') s)),
          impact = (case b_impact b of None \<Rightarrow> LLow | Some l \<Rightarrow> l),
          urgency = (case b_urgency b of None \<Rightarrow> LLow | Some l \<Rightarrow> l),
          createdAt = now\<rparr>)"

definition createTicket :: "jsdate \<Rightarrow> createBody request \<Rightarrow> store \<Rightarrow> response \<times> store" where
  "createTicket now req db =
     (if req_errors req \<noteq> [] then ((400, ValidationFailed (req_errors req)), db)
      else (case saveNew now (newTicket now req db) db of
              Inl e \<Rightarrow> ((500, Message ''Failed to create ticket''), db)
            | Inr (t, db') \<Rightarrow> ((201, WithTicket ''Ticket created successfully'' t), db')))"

section \<open>getTicketById\<close>

text \<open>
  \<open>users\<close> is the set of ids of the user collection. \<^verbatim>\<open>populate\<close> puts \<^verbatim>\<open>null\<close>
  where the referenced user does not exist, and \<^verbatim>\<open>ticket.createdBy._id\<close> on
  \<^verbatim>\<open>null\<close> throws; the conjunction is evaluated left to right.
\<close>

definition populate :: "oid set \<Rightarrow> oid option \<Rightarrow> oid option" where
  "populate users r = (case r of None \<Rightarrow> None | Some u \<Rightarrow> if u \<in> users then Some u else None)"

definition getTicketById :: "oid set \<Rightarrow> unit request \<Rightarrow> store \<Rightarrow> response" where
  "getTicketById users req db =
     (case findById (req_id req) db of
        None \<Rightarrow> (404, Message ''Ticket not found'')
      | Some ticket \<Rightarrow>
          (if user_role (req_user req) \<noteq> RoleAdmin then
             (case populate users (Some (createdBy ticket)) of
                None \<Rightarrow> (500, Message ''Failed to fetch ticket'')
              | Some creator \<Rightarrow>
                  if creator \<noteq> user_id (req_user req)
                     \<and> (case populate users (assignedTo ticket) of
                           None \<Rightarrow> True | Some a \<Rightarrow> a \<noteq> user_id (req_user req))
                  then (403, Message ''Access denied'')
                  else (200, JustTicket ticket))
           else (200, JustTicket ticket)))"

section \<open>updateTicket\<close>

text \<open>
  The body of an update is an object: a map from keys to values. A value is taken as
  the schema type of some path casts it; a value of another shape under a path is one
  that the path's cast rejects. A \<open>VUser None\<close> or \<open>VDate None\<close> is \<^verbatim>\<open>null\<close>, and a
  \<open>VObject\<close> is a nested object, as the operand of an update operator is.
\<close>

datatype pval =
    VStr string
  | VCategory category
  | VPriority priority
  | VStatus status
  | VLevel level
  | VUser "oid option"
  | VDate "jsdate option"
  | VTags "string list"
  | VComments "comment list"
  | VAttachments "attachment list"
  | VObject "string \<Rightarrow> pval option"

type_synonym patch = "string \<rightharpoonup> pval"

definition allowedFields :: "string list" where
  "allowedFields = [''title'', ''description'', ''priority'']"

text \<open>
  \<^verbatim>\<open>Object.keys(updates).forEach(key => { if (!allowedFields.includes(key)) delete updates[key] })\<close>
\<close>

definition restrictUpdates :: "patch \<Rightarrow> patch" where
  "restrictUpdates updates = (\<lambda>key. if key \<notin> set allowedFields then None else updates key)"

text \<open>
  \<^verbatim>\<open>Ticket.findByIdAndUpdate(id, updates, {new: true, runValidators: true})\<close>. A key
  that starts with \<^verbatim>\<open>$\<close> is an update operator. The store library first turns the
  other keys into operands of \<^verbatim>\<open>$set\<close> (\<open>castUpdate\<close>: they are written into the
  operand of \<^verbatim>\<open>$set\<close>, over an entry of the same name; an operand that is no object
  is refused). Then each entry of that operand that is a path of the schema is cast
  (with the path's setters) and validated, an entry that is no path is dropped, and the
  document is written under the unique index. The \<^verbatim>\<open>pre('save')\<close> hooks are hooks of
  \<open>save\<close>: this call runs none of them. Of the update operators the model covers
  \<^verbatim>\<open>$set\<close>; a patch with another operator key, or with a dotted path, is outside it
  (the model passes such a key over).
\<close>

definition setString :: "nat \<Rightarrow> (string \<Rightarrow> ticket \<Rightarrow> ticket) \<Rightarrow> pval \<Rightarrow> ticket \<Rightarrow> thrown + ticket" where
  "setString maxlength put v t =
     (case v of
        VStr s \<Rightarrow> (let s' = trim s in
                   if s' = [] \<or> maxlength < length s' then Inl ValidationError else Inr (put s' t))
      | _ \<Rightarrow> Inl CastError)"

definition schemaPaths :: "(string \<times> (pval \<Rightarrow> ticket \<Rightarrow> thrown + ticket)) list" where
  "schemaPaths =
     [(''ticketNumber'', \<lambda>v t. case v of
          VStr s \<Rightarrow> if s = [] then Inl ValidationError else Inr (t\<lparr>ticketNumber := Some s\<rparr>)
        | _ \<Rightarrow> Inl CastError),
      (''title'', setString 200 (\<lambda>s t. t\<lparr>title := s\<rparr>)),
      (''description'', setString 2000 (\<lambda>s t. t\<lparr>description := s\<rparr>)),
      (''category'', \<lambda>v t. case v of VCategory c \<Rightarrow> Inr (t\<lparr>category := c\<rparr>) | _ \<Rightarrow> Inl ValidationError),
      (''priority'', \<lambda>v t. case v of VPriority p \<Rightarrow> Inr (t\<lparr>priority := p\<rparr>) | _ \<Rightarrow> Inl ValidationError),
      (''status'', \<lambda>v t. case v of VStatus s \<Rightarrow> Inr (t\<lparr>status := s\<rparr>) | _ \<Rightarrow> Inl ValidationError),
      (''createdBy'', \<lambda>v t. case v of
          VUser (Some u) \<Rightarrow> Inr (t\<lparr>createdBy := u\<rparr>)
        | VUser None \<Rightarrow> Inl ValidationError
        | _ \<Rightarrow> Inl CastError),
      (''assignedTo'', \<lambda>v t. case v of VUser a \<Rightarrow> Inr (t\<lparr>assignedTo := a\<rparr>) | _ \<Rightarrow> Inl CastError),
      (''attachments'', \<lambda>v t. case v of VAttachments as \<Rightarrow> Inr (t\<lparr>attachments := as\<rparr>) | _ \<Rightarrow> Inl CastError),
      (''comments'', \<lambda>v t. case v of
          VComments cs \<Rightarrow>
            (let cs' = map (\<lambda>c. c\<lparr>c_message := trim (c_message c)\<rparr>) cs in
             if list_all validComment cs' then Inr (t\<lparr>comments := cs'\<rparr>) else Inl ValidationError)
        | _ \<Rightarrow> Inl CastError),
      (''resolution'', \<lambda>v t. case v of
          VStr s \<Rightarrow> if 1000 < length (trim s) then Inl ValidationError
                    else Inr (t\<lparr>resolution := Some (trim s)\<rparr>)
        | _ \<Rightarrow> Inl CastError),
      (''resolvedAt'', \<lambda>v t. case v of VDate d \<Rightarrow> Inr (t\<lparr>resolvedAt := d\<rparr>) | _ \<Rightarrow> Inl CastError),
      (''closedAt'', \<lambda>v t. case v of VDate d \<Rightarrow> Inr (t\<lparr>closedAt := d\<rparr>) | _ \<Rightarrow> Inl CastError),
      (''estimatedResolutionTime'', \<lambda>v t. case v of
          VDate d \<Rightarrow> Inr (t\<lparr>estimatedResolutionTime := d\<rparr>) | _ \<Rightarrow> Inl CastError),
      (''tags'', \<lambda>v t. case v of
          VTags ts \<Rightarrow> Inr (t\<lparr>tags := map (\<lambda>tag. toLowerCase (trim tag)) ts\<rparr>) | _ \<Rightarrow> Inl CastError),
      (''impact'', \<lambda>v t. case v of VLevel l \<Rightarrow> Inr (t\<lparr>impact := l\<rparr>) | _ \<Rightarrow> Inl ValidationError),
      (''urgency'', \<lambda>v t. case v of VLevel l \<Rightarrow> Inr (t\<lparr>urgency := l\<rparr>) | _ \<Rightarrow> Inl ValidationError)]"

fun applyPaths :: "(string \<times> (pval \<Rightarrow> ticket \<Rightarrow> thrown + ticket)) list \<Rightarrow> patch \<Rightarrow> ticket \<Rightarrow> thrown + ticket" where
  "applyPaths [] updates t = Inr t"
| "applyPaths ((key, put) # ps) updates t =
     (case updates key of
        None \<Rightarrow> applyPaths ps updates t
      | Some v \<Rightarrow> (case put v t of Inl e \<Rightarrow> Inl e | Inr t' \<Rightarrow> applyPaths ps updates t'))"

definition isOperator :: "string \<Rightarrow> bool" where
  "isOperator key = (case key of c # _ \<Rightarrow> c = CHR ''$'' | [] \<Rightarrow> False)"

definition setSugar :: "patch \<Rightarrow> patch \<Rightarrow> patch" where
  "setSugar updates operand =
     (\<lambda>key. if \<not> isOperator key \<and> updates key \<noteq> None then updates key else operand key)"

definition castUpdate :: "patch \<Rightarrow> thrown + patch" where
  "castUpdate updates =
     (case updates ''$set'' of
        None \<Rightarrow> Inr (setSugar updates Map.empty)
      | Some (VObject operand) \<Rightarrow> Inr (setSugar updates operand)
      | Some _ \<Rightarrow> Inl CastError)"

definition findByIdAndUpdate :: "oid \<Rightarrow> patch \<Rightarrow> store \<Rightarrow> thrown + (ticket option \<times> store)" where
  "findByIdAndUpdate i updates db =
     (case findById i db of
        None \<Rightarrow> Inr (None, db)
      | Some t \<Rightarrow>
          (case castUpdate updates of
             Inl e \<Rightarrow> Inl e
           | Inr sets \<Rightarrow>
               (case applyPaths schemaPaths sets t of
                  Inl e \<Rightarrow> Inl e
                | Inr t' \<Rightarrow>
                    if ticketNumber t' \<noteq> ticketNumber t
                       \<and> numberTaken (ticketNumber t') (filter (\<lambda>u. ticket_id u \<noteq> i) db)
                    then Inl DuplicateKey
                    else Inr (Some t', replaceById i t' db))))"

definition updateTicket :: "patch request \<Rightarrow> store \<Rightarrow> response \<times> store" where
  "updateTicket req db =
     (if req_errors req \<noteq> [] then ((400, ValidationFailed (req_errors req)), db)
      else (case findById (req_id req) db of
              None \<Rightarrow> ((404, Message ''Ticket not found''), db)
            | Some ticket \<Rightarrow>
                (let isOwner = (createdBy ticket = user_id (req_user req));
                     isAdmin = (user_role (req_user req) = RoleAdmin);
                     isAssigned = (assignedTo ticket = Some (user_id (req_user req)))
                 in if \<not> isAdmin \<and> \<not> isOwner \<and> \<not> isAssigned then ((403, Message ''Access denied''), db)
                    else (let updates = (if \<not> isAdmin then restrictUpdates (req_body req) else req_body req)
                          in case findByIdAndUpdate (req_id req) updates db of
                               Inl e \<Rightarrow> ((500, Message ''Failed to update ticket''), db)
                             | Inr (None, db') \<Rightarrow> ((200, WithNullTicket ''Ticket updated successfully''), db')
                             | Inr (Some updatedTicket, db') \<Rightarrow>
                                 ((200, WithTicket ''Ticket updated successfully'' updatedTicket), db')))))"

section \<open>addComment\<close>

record commentBody =
  b_message :: string
  b_isInternal :: bool

text \<open>
  The pushed comment gets the schema's \<^verbatim>\<open>trim\<close> on its message and the default
  \<^verbatim>\<open>Date.now\<close> for \<open>createdAt\<close>; \<open>save\<close> validates it. The answer carries
  \<^verbatim>\<open>ticket.comments[ticket.comments.length - 1]\<close>, and the list is not empty there.
\<close>

definition addComment :: "jsdate \<Rightarrow> commentBody request \<Rightarrow> store \<Rightarrow> response \<times> store" where
  "addComment now req db =
     (if req_errors req \<noteq> [] then ((400, ValidationFailed (req_errors req)), db)
      else (case findById (req_id req) db of
              None \<Rightarrow> ((404, Message ''Ticket not found''), db)
            | Some ticket \<Rightarrow>
                (let isOwner = (createdBy ticket = user_id (req_user req));
                     isAdmin = (user_role (req_user req) = RoleAdmin);
                     isAssigned = (assignedTo ticket = Some (user_id (req_user req)))
                 in if \<not> isAdmin \<and> \<not> isOwner \<and> \<not> isAssigned then ((403, Message ''Access denied''), db)
                    else (let commentIsInternal = (isAdmin \<and> b_isInternal (req_body req));
                              pushed = \<lparr>c_user = user_id (req_user req),
                                        c_message = trim (b_message (req_body req)),
                                        c_isInternal = commentIsInternal,
                                        c_createdAt = now\<rparr>;
                              ticket' = ticket\<lparr>comments := comments ticket @ [pushed]\<rparr>
                          in case saveExisting False (validComment pushed) now ticket' db of
                               Inl e \<Rightarrow> ((500, Message ''Failed to add comment''), db)
                             | Inr (saved, db') \<Rightarrow>
                                 ((200, WithComment ''Comment added successfully'' (last (comments saved))), db')))))"

section \<open>assignTicket\<close>

text \<open>
  \<open>b_assignedTo\<close> is \<open>None\<close> for a falsy \<^verbatim>\<open>assignedTo\<close> (absent, \<^verbatim>\<open>null\<close> or empty).
  The handler does not read \<^verbatim>\<open>validationResult\<close>, and the role is checked by the
  route (\<open>requireAdmin\<close>) before it.
\<close>

definition requireAdmin :: "'b request \<Rightarrow> response option" where
  "requireAdmin req =
     (if user_role (req_user req) \<noteq> RoleAdmin then Some (403, Message ''Admin access required'') else None)"

definition assignTicket :: "oid set \<Rightarrow> jsdate \<Rightarrow> oid option request \<Rightarrow> store \<Rightarrow> response \<times> store" where
  "assignTicket users now req db =
     (case findById (req_id req) db of
        None \<Rightarrow> ((404, Message ''Ticket not found''), db)
      | Some ticket \<Rightarrow>
          (if (case req_body req of None \<Rightarrow> False | Some a \<Rightarrow> a \<notin> users)
           then ((400, Message ''Assignee not found''), db)
           else (let ticket1 = ticket\<lparr>assignedTo := req_body req\<rparr>;
                     ticket2 = (if req_body req \<noteq> None \<and> status ticket1 = Open
                                then ticket1\<lparr>status := InProgress\<rparr> else ticket1)
                 in case saveExisting (status ticket2 \<noteq> status ticket) True now ticket2 db of
                      Inl e \<Rightarrow> ((500, Message ''Failed to assign ticket''), db)
                    | Inr (saved, db') \<Rightarrow>
                        ((200, WithTicket ''Ticket assignment updated successfully'' saved), db'))))"

section \<open>getTicketStats\<close>

text \<open>
  The first aggregation groups all documents into one (\<^verbatim>\<open>_id: null\<close>) and gives no
  group for an empty collection; the other two count the documents of each value.
\<close>

definition cond :: "bool \<Rightarrow> nat" where
  "cond b = (if b then 1 else 0)"

definition groupAll :: "store \<Rightarrow> overview list" where
  "groupAll db =
     (if db = [] then []
      else [\<lparr>totalTickets = sum_list (map (\<lambda>t. 1) db),
             openTickets = sum_list (map (\<lambda>t. cond (status t = Open)) db),
             inProgressTickets = sum_list (map (\<lambda>t. cond (status t = InProgress)) db),
             resolvedTickets = sum_list (map (\<lambda>t. cond (status t = Resolved)) db),
             closedTickets = sum_list (map (\<lambda>t. cond (status t = Closed)) db)\<rparr>])"

definition groupCount :: "(ticket \<Rightarrow> 'k) \<Rightarrow> store \<Rightarrow> ('k \<times> nat) list" where
  "groupCount key db = map (\<lambda>k. (k, length (filter (\<lambda>t. key t = k) db))) (remdups (map key db))"

definition statsOverview :: "store \<Rightarrow> overview" where
  "statsOverview db =
     (case groupAll db of
        s # _ \<Rightarrow> s
      | [] \<Rightarrow> \<lparr>totalTickets = 0, openTickets = 0, inProgressTickets = 0, resolvedTickets = 0, closedTickets = 0\<rparr>)"

definition getTicketStats :: "store \<Rightarrow> response" where
  "getTicketStats db = (200, Statistics (statsOverview db) (groupCount priority db) (groupCount category db))"

section \<open>Predicates and data used in the statements\<close>

text \<open>
  What the validators of \<open>title\<close>, \<open>description\<close> and \<open>priority\<close> accept under a
  key of a patch, and the value the path holds afterwards.
\<close>

definition acceptsString :: "nat \<Rightarrow> pval option \<Rightarrow> bool" where
  "acceptsString maxlength v =
     (case v of None \<Rightarrow> True
      | Some (VStr s) \<Rightarrow> trim s \<noteq> [] \<and> length (trim s) \<le> maxlength
      | Some _ \<Rightarrow> False)"

definition acceptsPriority :: "pval option \<Rightarrow> bool" where
  "acceptsPriority v = (case v of None \<Rightarrow> True | Some (VPriority p) \<Rightarrow> True | Some _ \<Rightarrow> False)"

definition stringOr :: "string \<Rightarrow> pval option \<Rightarrow> string" where
  "stringOr old v = (case v of Some (VStr s) \<Rightarrow> trim s | _ \<Rightarrow> old)"

definition priorityOr :: "priority \<Rightarrow> pval option \<Rightarrow> priority" where
  "priorityOr old v = (case v of Some (VPriority p) \<Rightarrow> p | _ \<Rightarrow> old)"

text \<open>
  The running example: 5 January 2024, the requester Alice, another requester Bob, an
  administrator, and two stored tickets of Alice, numbered as the first two of that day.
\<close>

definition exampleDay :: "nat \<Rightarrow> jsdate" where
  "exampleDay ms = \<lparr>getFullYear = 2024, getMonth = 0, getDate = 5, msOfDay = ms\<rparr>"

definition alice :: user where
  "alice = \<lparr>user_id = 7, user_role = RoleUser\<rparr>"

definition bob :: user where
  "bob = \<lparr>user_id = 8, user_role = RoleUser\<rparr>"

definition adminUser :: user where
  "adminUser = \<lparr>user_id = 1, user_role = RoleAdmin\<rparr>"

definition exampleUsers :: "oid set" where
  "exampleUsers = {1, 7, 8}"

definition request :: "user \<Rightarrow> oid \<Rightarrow> 'b \<Rightarrow> 'b request" where
  "request u i b = \<lparr>req_errors = [], req_user = u, req_id = i, req_body = b, req_files = None\<rparr>"

definition exampleBody :: createBody where
  "exampleBody = \<lparr>b_title = ''Printer on fire'', b_description = ''Smoke from tray 2'',
     b_category = PrinterIssue, b_priority = None, b_impact = None, b_urgency = None, b_tags = None\<rparr>"

definition storedTicket :: "oid \<Rightarrow> string \<Rightarrow> nat \<Rightarrow> ticket" where
  "storedTicket i n ms =
     \<lparr>ticket_id = i, ticketNumber = Some n, title = ''Printer on fire'',
      description = ''Smoke from tray 2'', category = PrinterIssue, priority = PMedium,
      status = Open, createdBy = 7, assignedTo = None, attachments = [], comments = [],
      resolution = None, resolvedAt = None, closedAt = None, estimatedResolutionTime = None,
      tags = [], impact = LLow, urgency = LLow, createdAt = exampleDay ms\<rparr>"

definition firstTicket :: ticket where
  "firstTicket = storedTicket 0 ''TKT-20240105-0001'' 1000"


definition internalNote :: comment where
  "internalNote = \<lparr>c_user = 1, c_message = ''Requester caused it'', c_isInternal = True,
     c_createdAt = exampleDay 5000\<rparr>"

definition notedTicket :: ticket where
  "notedTicket = firstTicket\<lparr>comments := [internalNote]\<rparr>"

section \<open>Facts about the store and the hooks\<close>

lemma findById_ticket_id: "findById i db = Some t \<Longrightarrow> ticket_id t = i"
  by (induction db) (auto split: if_splits)

lemma findById_member: "findById i db = Some t \<Longrightarrow> t \<in> set db"
  by (induction db) (auto split: if_splits)

lemma findById_replaceById:
  "findById i db = Some t \<Longrightarrow> ticket_id t' = i \<Longrightarrow> findById i (replaceById i t' db) = Some t'"
  by (induction db) (auto split: if_splits)

lemma map_replaceById:
  "findById i db = Some t \<Longrightarrow> f t' = f t \<Longrightarrow> map f (replaceById i t' db) = map f db"
  by (induction db) (auto split: if_splits)

lemma ticketNumberHook_numbered: "truthy (ticketNumber this) \<Longrightarrow> ticketNumberHook now db this = this"
  by (simp add: ticketNumberHook_def)

lemma ticketNumberHook_truthy: "truthy (ticketNumber (ticketNumberHook now db this))"
  by (simp add: ticketNumberHook_def truthy_def Let_def)

lemma timestampHook_unmodified: "timestampHook False now this = this"
  by (simp add: timestampHook_def)

lemma timestampHook_ticketNumber: "ticketNumber (timestampHook m now this) = ticketNumber this"
  by (simp add: timestampHook_def)

text \<open>
  The second hook taken alone does what its comment says: it stamps once and never
  clears.
\<close>

lemma timestampHook_stamps:
  "status this = Resolved \<Longrightarrow> resolvedAt (timestampHook True now this)
     = (case resolvedAt this of None \<Rightarrow> Some now | Some d \<Rightarrow> Some d)"
  "status this = Closed \<Longrightarrow> closedAt (timestampHook True now this)
     = (case closedAt this of None \<Rightarrow> Some now | Some d \<Rightarrow> Some d)"
  by (auto simp add: timestampHook_def split: option.splits)

lemma timestampHook_keeps:
  "resolvedAt this = Some d \<Longrightarrow> resolvedAt (timestampHook m now this) = Some d"
  "closedAt this = Some d \<Longrightarrow> closedAt (timestampHook m now this) = Some d"
  by (simp_all add: timestampHook_def)

lemma saveExisting_numbered:
  assumes "truthy (ticketNumber this)" and "timestampHook m now this = this"
  shows "saveExisting m valid now this db =
           (if valid then Inr (this, replaceById (ticket_id this) this db) else Inl ValidationError)"
  using assms by (simp add: saveExisting_def runHooks_def ticketNumberHook_numbered)

text \<open>
  A new document of \<open>createTicket\<close> has no number when it is validated, so its save
  throws, whatever the request and the collection.
\<close>

lemma newTicket_unnumbered: "ticketNumber (newTicket now req db) = None"
  by (simp add: newTicket_def Let_def)

lemma saveNew_newTicket: "saveNew now (newTicket now req db) db = Inl ValidationError"
  by (simp add: saveNew_def validateNew_def newTicket_unnumbered truthy_def)

lemma createTicket_outcome:
  "createTicket now req db =
     (if req_errors req \<noteq> [] then ((400, ValidationFailed (req_errors req)), db)
      else ((500, Message ''Failed to create ticket''), db))"
  by (simp add: createTicket_def saveNew_newTicket)

lemma saveExisting_ticketNumber:
  assumes "findById i db = Some t" "ticketNumber this = ticketNumber t" "ticket_id this = i"
    "truthy (ticketNumber t)"
  shows "map ticketNumber (snd (case saveExisting m valid now this db of Inl e \<Rightarrow> (this, db) | Inr r \<Rightarrow> r))
         = map ticketNumber db"
proof -
  have hook: "ticketNumberHook now db this = this"
    using assms by (simp add: ticketNumberHook_numbered)
  have id: "ticket_id (timestampHook m now this) = i"
    using assms(3) by (simp add: timestampHook_def)
  show ?thesis
    using assms(1,2) id
    by (simp add: saveExisting_def runHooks_def hook Let_def timestampHook_ticketNumber map_replaceById)
qed

section \<open>Facts about updates\<close>

lemma restrictUpdates_key:
  "restrictUpdates u k = (if k = ''title'' \<or> k = ''description'' \<or> k = ''priority'' then u k else None)"
  by (simp add: restrictUpdates_def allowedFields_def)

lemma restrictUpdates_idem: "restrictUpdates (restrictUpdates u) = restrictUpdates u"
  by (rule ext) (simp add: restrictUpdates_def)

lemma applyPaths_cong:
  "\<forall>(k, put) \<in> set ps. u k = u' k \<Longrightarrow> applyPaths ps u t = applyPaths ps u' t"
  by (induction ps arbitrary: t) (auto split: option.splits sum.splits)

lemma schemaPaths_not_operators: "(k, put) \<in> set schemaPaths \<Longrightarrow> \<not> isOperator k"
  by (auto simp add: schemaPaths_def isOperator_def)

lemma applyPaths_setSugar:
  "applyPaths schemaPaths (setSugar u Map.empty) t = applyPaths schemaPaths u t"
proof (rule applyPaths_cong, intro ballI, clarify)
  fix k put
  assume "(k, put) \<in> set schemaPaths"
  then have "\<not> isOperator k" by (rule schemaPaths_not_operators)
  then show "setSugar u Map.empty k = u k"
    by (cases "u k") (simp_all add: setSugar_def)
qed

text \<open>Without the key \<^verbatim>\<open>$set\<close> the update applies the paths among the keys themselves.\<close>

lemma findByIdAndUpdate_plain:
  assumes "u ''$set'' = None"
  shows "findByIdAndUpdate i u db =
     (case findById i db of
        None \<Rightarrow> Inr (None, db)
      | Some t \<Rightarrow>
          (case applyPaths schemaPaths u t of
             Inl e \<Rightarrow> Inl e
           | Inr t' \<Rightarrow>
               if ticketNumber t' \<noteq> ticketNumber t
                  \<and> numberTaken (ticketNumber t') (filter (\<lambda>u. ticket_id u \<noteq> i) db)
               then Inl DuplicateKey
               else Inr (Some t', replaceById i t' db)))"
  using assms by (simp add: findByIdAndUpdate_def castUpdate_def applyPaths_setSugar split: option.splits)

lemma restrictUpdates_plain: "restrictUpdates u ''$set'' = None"
  by (simp add: restrictUpdates_def allowedFields_def)

lemma applyPaths_restricted:
  "applyPaths schemaPaths (restrictUpdates u) t =
     (case (case u ''title'' of None \<Rightarrow> Inr t | Some v \<Rightarrow> setString 200 (\<lambda>s t. t\<lparr>title := s\<rparr>) v t) of
        Inl e \<Rightarrow> Inl e
      | Inr t1 \<Rightarrow>
          (case (case u ''description'' of None \<Rightarrow> Inr t1
                 | Some v \<Rightarrow> setString 2000 (\<lambda>s t. t\<lparr>description := s\<rparr>) v t1) of
             Inl e \<Rightarrow> Inl e
           | Inr t2 \<Rightarrow>
               (case u ''priority'' of None \<Rightarrow> Inr t2
                | Some v \<Rightarrow> (case v of VPriority p \<Rightarrow> Inr (t2\<lparr>priority := p\<rparr>) | _ \<Rightarrow> Inl ValidationError))))"
  by (simp add: schemaPaths_def restrictUpdates_key split: option.splits sum.splits)

lemma applyPaths_accepted:
  assumes "acceptsString 200 (u ''title'')" "acceptsString 2000 (u ''description'')"
    "acceptsPriority (u ''priority'')"
  shows "applyPaths schemaPaths (restrictUpdates u) t =
           Inr (t\<lparr>title := stringOr (title t) (u ''title''),
                  description := stringOr (description t) (u ''description''),
                  priority := priorityOr (priority t) (u ''priority'')\<rparr>)"
proof -
  have a: "(case u ''title'' of None \<Rightarrow> Inr t | Some v \<Rightarrow> setString 200 (\<lambda>s t. t\<lparr>title := s\<rparr>) v t)
           = Inr (t\<lparr>title := stringOr (title t) (u ''title'')\<rparr>)"
    using assms(1) by (auto simp add: acceptsString_def stringOr_def setString_def split: option.splits pval.splits)
  have b: "\<And>t1. (case u ''description'' of None \<Rightarrow> Inr t1
                 | Some v \<Rightarrow> setString 2000 (\<lambda>s t. t\<lparr>description := s\<rparr>) v t1)
           = Inr (t1\<lparr>description := stringOr (description t1) (u ''description'')\<rparr>)"
    using assms(2) by (auto simp add: acceptsString_def stringOr_def setString_def split: option.splits pval.splits)
  have c: "\<And>t2. (case u ''priority'' of None \<Rightarrow> Inr t2
                | Some v \<Rightarrow> (case v of VPriority p \<Rightarrow> Inr (t2\<lparr>priority := p\<rparr>) | _ \<Rightarrow> Inl ValidationError))
           = Inr (t2\<lparr>priority := priorityOr (priority t2) (u ''priority'')\<rparr>)"
    using assms(3) by (auto simp add: acceptsPriority_def priorityOr_def split: option.splits pval.splits)
  show ?thesis
    by (simp add: applyPaths_restricted a b c)
qed

lemma updateTicket_restricted:
  assumes "user_role (req_user req) \<noteq> RoleAdmin"
  shows "updateTicket req db = updateTicket (req\<lparr>req_body := restrictUpdates (req_body req)\<rparr>) db"
  using assms by (simp add: updateTicket_def Let_def restrictUpdates_idem split: option.splits)

lemma applyPaths_invariant:
  "\<forall>(k, put) \<in> set ps. \<forall>v a b. u k = Some v \<longrightarrow> put v a = Inr b \<longrightarrow> f b = f a \<Longrightarrow>
   applyPaths ps u t = Inr t' \<Longrightarrow> f t' = f t"
proof (induction ps arbitrary: t)
  case Nil
  then show ?case by simp
next
  case (Cons p ps)
  obtain k put where p: "p = (k, put)" by (cases p)
  have rest: "\<forall>(k, put) \<in> set ps. \<forall>v a b. u k = Some v \<longrightarrow> put v a = Inr b \<longrightarrow> f b = f a"
    using Cons.prems(1) by simp
  show ?case
  proof (cases "u k")
    case None
    with Cons.prems(2) p have "applyPaths ps u t = Inr t'" by simp
    then show ?thesis by (rule Cons.IH [OF rest])
  next
    case (Some v)
    with Cons.prems(2) p obtain t1 where t1: "put v t = Inr t1" and run: "applyPaths ps u t1 = Inr t'"
      by (auto split: sum.splits)
    have "f t1 = f t"
      using Cons.prems(1) p Some t1 by simp
    moreover have "f t' = f t1"
      using run by (rule Cons.IH [OF rest])
    ultimately show ?thesis by simp
  qed
qed

lemma schemaPaths_ticketNumber:
  assumes "(k, put) \<in> set schemaPaths" "k \<noteq> ''ticketNumber''" "put v t = Inr t'"
  shows "ticketNumber t' = ticketNumber t"
  using assms
  by (auto simp add: schemaPaths_def setString_def Let_def split: pval.splits option.splits if_splits)

lemma findByIdAndUpdate_ticketNumber:
  assumes "u ''ticketNumber'' = None" and plain: "u ''$set'' = None"
  shows "map ticketNumber (snd (case findByIdAndUpdate i u db of Inl e \<Rightarrow> (None, db) | Inr r \<Rightarrow> r))
         = map ticketNumber db"
proof (cases "findById i db")
  case None
  then show ?thesis by (simp add: findByIdAndUpdate_plain [where u = u, OF plain])
next
  case (Some t)
  show ?thesis
  proof (cases "applyPaths schemaPaths u t")
    case (Inl e)
    with Some show ?thesis by (simp add: findByIdAndUpdate_plain [where u = u, OF plain])
  next
    case (Inr t')
    have "ticketNumber t' = ticketNumber t"
    proof (rule applyPaths_invariant [OF _ Inr])
      show "\<forall>(k, put) \<in> set schemaPaths. \<forall>v a b.
              u k = Some v \<longrightarrow> put v a = Inr b \<longrightarrow> ticketNumber b = ticketNumber a"
      proof (intro ballI, clarify)
        fix k put v a b
        assume "(k, put) \<in> set schemaPaths" "u k = Some v" "put v a = Inr b"
        with assms(1) show "ticketNumber b = ticketNumber a"
          using schemaPaths_ticketNumber [of k put v a b] by (cases "k = ''ticketNumber''") auto
      qed
    qed
    with Some Inr show ?thesis
      by (simp add: findByIdAndUpdate_plain [where u = u, OF plain] map_replaceById)
  qed
qed

lemma updateTicket_ticketNumber:
  assumes "user_role (req_user req) \<noteq> RoleAdmin"
  shows "map ticketNumber (snd (updateTicket req db)) = map ticketNumber db"
proof -
  let ?u = "restrictUpdates (req_body req)"
  have none: "?u ''ticketNumber'' = None"
    by (simp add: restrictUpdates_key)
  show ?thesis
    using assms
      findByIdAndUpdate_ticketNumber [where u = "?u" and i = "req_id req" and db = db, OF none restrictUpdates_plain]
    by (auto simp add: updateTicket_def Let_def split: option.splits sum.splits prod.splits)
qed

lemma addComment_ticketNumber:
  assumes "list_all (\<lambda>t. truthy (ticketNumber t)) db"
  shows "map ticketNumber (snd (addComment now req db)) = map ticketNumber db"
proof (cases "findById (req_id req) db")
  case None
  then show ?thesis by (simp add: addComment_def)
next
  case (Some t)
  have num: "truthy (ticketNumber t)"
    using assms findById_member [OF Some] by (simp add: list_all_iff)
  have id: "ticket_id t = req_id req" using Some by (rule findById_ticket_id)
  let ?c = "\<lparr>c_user = user_id (req_user req), c_message = trim (b_message (req_body req)),
             c_isInternal = (user_role (req_user req) = RoleAdmin \<and> b_isInternal (req_body req)),
             c_createdAt = now\<rparr>"
  let ?t = "t\<lparr>comments := comments t @ [?c]\<rparr>"
  have frame: "map ticketNumber (snd (case saveExisting False (validComment ?c) now ?t db of
            Inl e \<Rightarrow> (?t, db) | Inr r \<Rightarrow> r)) = map ticketNumber db"
    by (rule saveExisting_ticketNumber [OF Some _ _ num]) (simp_all add: id)
  show ?thesis
  proof (cases "saveExisting False (validComment ?c) now ?t db")
    case (Inl e)
    then show ?thesis using Some by (simp add: addComment_def Let_def)
  next
    case (Inr r)
    with frame have "map ticketNumber (snd r) = map ticketNumber db" by simp
    then show ?thesis using Some Inr by (cases r) (auto simp add: addComment_def Let_def)
  qed
qed

lemma assignTicket_ticketNumber:
  assumes "list_all (\<lambda>t. truthy (ticketNumber t)) db"
  shows "map ticketNumber (snd (assignTicket users now req db)) = map ticketNumber db"
proof (cases "findById (req_id req) db")
  case None
  then show ?thesis by (simp add: assignTicket_def)
next
  case (Some t)
  have num: "truthy (ticketNumber t)"
    using assms findById_member [OF Some] by (simp add: list_all_iff)
  have id: "ticket_id t = req_id req" using Some by (rule findById_ticket_id)
  let ?t1 = "t\<lparr>assignedTo := req_body req\<rparr>"
  let ?t2 = "if req_body req \<noteq> None \<and> status ?t1 = Open then ?t1\<lparr>status := InProgress\<rparr> else ?t1"
  have frame: "map ticketNumber (snd (case saveExisting (status ?t2 \<noteq> status t) True now ?t2 db of
            Inl e \<Rightarrow> (?t2, db) | Inr r \<Rightarrow> r)) = map ticketNumber db"
    by (rule saveExisting_ticketNumber [OF Some _ _ num]) (simp_all add: id)
  show ?thesis
  proof (cases "saveExisting (status ?t2 \<noteq> status t) True now ?t2 db")
    case (Inl e)
    then show ?thesis using Some by (simp add: assignTicket_def Let_def)
  next
    case (Inr r)
    with frame have "map ticketNumber (snd r) = map ticketNumber db" by simp
    then show ?thesis using Some Inr by (cases r) (auto simp add: assignTicket_def Let_def)
  qed
qed

section \<open>Facts about the example\<close>

lemma natToString_examples:
  "natToString 2024 = ''2024''" "natToString (Suc 0) = ''1''" "natToString 5 = ''5''"
  by code_simp+

lemma trim_examples:
  "trim ''Printer on fire'' = ''Printer on fire''" "trim ''Smoke from tray 2'' = ''Smoke from tray 2''"
  by (simp_all add: trim_def isWhite_def)

lemma newTicket_example:
  "newTicket (exampleDay ms) (request alice j exampleBody) db =
     (storedTicket (length db) [] ms)\<lparr>ticketNumber := None\<rparr>"
  by (simp add: newTicket_def request_def alice_def exampleBody_def storedTicket_def trim_examples)

lemma prefix_example:
  "''TKT-'' @ natToString (getFullYear (exampleDay ms))
     @ padStart 2 (CHR ''0'') (natToString (getMonth (exampleDay ms) + 1))
     @ padStart 2 (CHR ''0'') (natToString (getDate (exampleDay ms))) @ ''-'' = ''TKT-20240105-''"
  by (simp add: exampleDay_def natToString_examples padStart_def numeral_2_eq_2)

lemma window_example:
  "date_le (startOfDay (exampleDay ms)) (exampleDay k)"
  "date_le (exampleDay k) (endOfDay (exampleDay ms)) = (k \<le> 86399999)"
  by (simp_all add: date_le_def startOfDay_def endOfDay_def exampleDay_def)

lemma suffix_examples:
  "padStart 4 (CHR ''0'') (numToString (Num 1)) = ''0001''"
  "padStart 4 (CHR ''0'') (numToString NaN) = ''0NaN''"
  by code_simp+

lemma nextSequence_generated:
  "nextSequence (Some (storedTicket i ''TKT-20240105-0001'' k)) = NaN"
  by (simp add: nextSequence_def storedTicket_def truthy_def at_def parseInt_def)

lemma hook_empty:
  "ticketNumberHook (exampleDay ms) [] ((storedTicket i [] ms)\<lparr>ticketNumber := None\<rparr>)
     = storedTicket i ''TKT-20240105-0001'' ms"
  using prefix_example [of ms]
  by (simp add: ticketNumberHook_def truthy_def Let_def findLastToday_def nextSequence_def
        suffix_examples storedTicket_def)

lemma hook_after_first:
  "ticketNumberHook (exampleDay 2000) [firstTicket] ((storedTicket i [] 2000)\<lparr>ticketNumber := None\<rparr>)
     = storedTicket i ''TKT-20240105-0NaN'' 2000"
proof -
  have "findLastToday (exampleDay 2000) [firstTicket] = Some firstTicket"
    by (simp add: findLastToday_def firstTicket_def storedTicket_def window_example)
  then show ?thesis
    using prefix_example [of 2000]
    by (simp add: ticketNumberHook_def truthy_def Let_def firstTicket_def nextSequence_generated
        suffix_examples) (simp add: storedTicket_def)
qed

lemma sum_cond_filter: "sum_list (map (\<lambda>t. cond (P t)) db) = length (filter P db)"
  by (induction db) (simp_all add: cond_def)

lemma sum_ones: "sum_list (map (\<lambda>t. Suc 0) db) = length db"
  by (induction db) simp_all

lemma status_partition:
  "length (filter (\<lambda>t. status t = Open) db) + length (filter (\<lambda>t. status t = InProgress) db)
   + length (filter (\<lambda>t. status t = Resolved) db) + length (filter (\<lambda>t. status t = Closed) db)
   + length (filter (\<lambda>t. status t = WaitingForResponse) db) = length db"
proof (induction db)
  case Nil
  then show ?case by simp
next
  case (Cons t db)
  then show ?case by (cases "status t") simp_all
qed

lemma statsOverview_eq:
  "statsOverview db = \<lparr>totalTickets = length db,
      openTickets = length (filter (\<lambda>t. status t = Open) db),
      inProgressTickets = length (filter (\<lambda>t. status t = InProgress) db),
      resolvedTickets = length (filter (\<lambda>t. status t = Resolved) db),
      closedTickets = length (filter (\<lambda>t. status t = Closed) db)\<rparr>"
  by (cases "db = []") (simp_all add: statsOverview_def groupAll_def sum_cond_filter sum_ones)


lemma example_requests:
  "req_errors (request u i b) = []" "req_user (request u i b) = u" "req_id (request u i b) = i"
  "req_body (request u i b) = b"
  by (simp_all add: request_def)

lemma firstTicket_fields:
  "ticket_id firstTicket = 0" "createdBy firstTicket = 7" "assignedTo firstTicket = None"
  "ticketNumber firstTicket = Some ''TKT-20240105-0001''" "status firstTicket = Open"
  "comments firstTicket = []" "resolvedAt firstTicket = None"
  "title firstTicket = ''Printer on fire''" "description firstTicket = ''Smoke from tray 2''"
  "priority firstTicket = PMedium"
  by (simp_all add: firstTicket_def storedTicket_def)

section \<open>The claims\<close>

subsection \<open>C1: internal comments when a ticket is read\<close>

text \<open>
  C1. For a non-admin actor who is the creator or the assignee, the result of
  \<open>getTicketById\<close> should hold no comment whose \<open>isInternal\<close> flag is true. The handler
  sends the document as it is stored. Here the administrator adds an internal comment to
  Alice's ticket (\<open>addComment\<close> stores it as internal), and Alice, who is no
  administrator, then reads the ticket: the answer is 200 with the ticket and its
  internal comment.
\<close>

theorem getTicketById_returns_internal_comment:
  "addComment (exampleDay 5000)
       (request adminUser 0 \<lparr>b_message = ''Requester caused it'', b_isInternal = True\<rparr>) [firstTicket]
     = ((200, WithComment ''Comment added successfully'' internalNote), [notedTicket])
   \<and> user_role alice \<noteq> RoleAdmin \<and> createdBy notedTicket = user_id alice
   \<and> getTicketById exampleUsers (request alice 0 ()) [notedTicket] = (200, JustTicket notedTicket)
   \<and> comments notedTicket = [internalNote] \<and> c_isInternal internalNote"
proof -
  have trimmed: "trim ''Requester caused it'' = ''Requester caused it''"
    by (simp add: trim_def isWhite_def)
  have "saveExisting False (validComment internalNote) (exampleDay 5000) notedTicket [firstTicket]
          = Inr (notedTicket, [notedTicket])"
    by (simp add: saveExisting_numbered timestampHook_unmodified notedTicket_def firstTicket_fields
          truthy_def validComment_def internalNote_def)
  then have add: "addComment (exampleDay 5000)
       (request adminUser 0 \<lparr>b_message = ''Requester caused it'', b_isInternal = True\<rparr>) [firstTicket]
     = ((200, WithComment ''Comment added successfully'' internalNote), [notedTicket])"
    by (simp add: addComment_def example_requests firstTicket_fields adminUser_def trimmed Let_def
          notedTicket_def internalNote_def)
  have get: "getTicketById exampleUsers (request alice 0 ()) [notedTicket] = (200, JustTicket notedTicket)"
    by (simp add: getTicketById_def example_requests notedTicket_def firstTicket_fields alice_def
          populate_def exampleUsers_def)
  show ?thesis
    using add get by (simp add: alice_def notedTicket_def firstTicket_fields internalNote_def)
qed

subsection \<open>C2: the numbers of the tickets of one day\<close>

text \<open>
  C2. The first ticket of a day should get the suffix 0001 and the later ones increasing
  suffixes. The schema requires \<open>ticketNumber\<close> and supplies it in a
  \<^verbatim>\<open>pre('save')\<close> hook (``Generate ticket number before saving''), but \<open>save\<close>
  validates before it runs that hook: the new document of \<open>createTicket\<close> has no
  number at validation, the save throws, and the first request of the day is answered
  500 with nothing stored. The hook has a second defect, seen when it is run alone: for
  the first ticket of a day it computes the suffix 0001, but it reads the last sequence
  from \<^verbatim>\<open>ticketNumber.split('-')[3]\<close>, and a number \<^verbatim>\<open>TKT-YYYYMMDD-NNNN\<close> has only
  the parts 0, 1 and 2, so after a ticket 0001 it computes \<^verbatim>\<open>TKT-20240105-0NaN\<close>.
\<close>

theorem first_ticket_of_the_day_rejected:
  "createTicket (exampleDay 1000) (request alice 0 exampleBody) []
     = ((500, Message ''Failed to create ticket''), [])
   \<and> ticketNumber (newTicket (exampleDay 1000) (request alice 0 exampleBody) []) = None
   \<and> ticketNumber (ticketNumberHook (exampleDay 1000) []
        (newTicket (exampleDay 1000) (request alice 0 exampleBody) [])) = Some ''TKT-20240105-0001''
   \<and> ticketNumber (ticketNumberHook (exampleDay 2000) [firstTicket]
        (newTicket (exampleDay 2000) (request alice 0 exampleBody) [firstTicket]))
       = Some ''TKT-20240105-0NaN''"
proof -
  have save: "saveNew (exampleDay 1000) (newTicket (exampleDay 1000) (request alice 0 exampleBody) []) []
                = Inl ValidationError"
    by (simp add: saveNew_def validateNew_def newTicket_example truthy_def)
  have answer: "createTicket (exampleDay 1000) (request alice 0 exampleBody) []
     = ((500, Message ''Failed to create ticket''), [])"
    by (simp add: createTicket_def example_requests save)
  have unnumbered: "ticketNumber (newTicket (exampleDay 1000) (request alice 0 exampleBody) []) = None"
    by (simp add: newTicket_example)
  have first: "ticketNumber (ticketNumberHook (exampleDay 1000) []
        (newTicket (exampleDay 1000) (request alice 0 exampleBody) [])) = Some ''TKT-20240105-0001''"
    by (simp add: newTicket_example hook_empty) (simp add: storedTicket_def)
  have second: "ticketNumber (ticketNumberHook (exampleDay 2000) [firstTicket]
        (newTicket (exampleDay 2000) (request alice 0 exampleBody) [firstTicket]))
       = Some ''TKT-20240105-0NaN''"
    by (simp add: newTicket_example hook_after_first) (simp add: storedTicket_def)
  show ?thesis
    using answer unnumbered first second by simp
qed

subsection \<open>C3: a conflict on the unique index\<close>




subsection \<open>C4: what a non-admin may update\<close>

text \<open>
  C4. For a non-admin creator or assignee, a request without validation errors, and a
  patch whose \<open>title\<close>, \<open>description\<close> and \<open>priority\<close> values (where present) pass the
  schema's validators: the answer is 200, the stored ticket is the old one with exactly
  these three fields replaced by the patch's values (strings trimmed), so \<open>status\<close>,
  \<open>assignedTo\<close> and every other field are as before whatever the patch holds under
  their keys; and the whole outcome is the one of the request with the other keys
  removed.
\<close>

theorem updateTicket_non_admin_fields:
  assumes errs: "req_errors req = []"
    and found: "findById (req_id req) db = Some t"
    and role: "user_role (req_user req) \<noteq> RoleAdmin"
    and permitted: "createdBy t = user_id (req_user req) \<or> assignedTo t = Some (user_id (req_user req))"
    and accepted: "acceptsString 200 (req_body req ''title'')"
      "acceptsString 2000 (req_body req ''description'')"
      "acceptsPriority (req_body req ''priority'')"
  shows "\<exists>t'. updateTicket req db =
                 ((200, WithTicket ''Ticket updated successfully'' t'), replaceById (req_id req) t' db)
              \<and> findById (req_id req) (snd (updateTicket req db)) = Some t'
              \<and> t' = t\<lparr>title := stringOr (title t) (req_body req ''title''),
                        description := stringOr (description t) (req_body req ''description''),
                        priority := priorityOr (priority t) (req_body req ''priority'')\<rparr>
              \<and> status t' = status t \<and> assignedTo t' = assignedTo t
              \<and> updateTicket req db = updateTicket (req\<lparr>req_body := restrictUpdates (req_body req)\<rparr>) db"
proof -
  let ?t = "t\<lparr>title := stringOr (title t) (req_body req ''title''),
              description := stringOr (description t) (req_body req ''description''),
              priority := priorityOr (priority t) (req_body req ''priority'')\<rparr>"
  have id: "ticket_id ?t = req_id req"
    using findById_ticket_id [OF found] by simp
  have "findByIdAndUpdate (req_id req) (restrictUpdates (req_body req)) db
          = Inr (Some ?t, replaceById (req_id req) ?t db)"
    using found
    by (simp add: findByIdAndUpdate_plain [where u = "restrictUpdates (req_body req)", OF restrictUpdates_plain]
          applyPaths_accepted [OF accepted])
  then have result: "updateTicket req db =
          ((200, WithTicket ''Ticket updated successfully'' ?t), replaceById (req_id req) ?t db)"
    using errs found role permitted by (auto simp add: updateTicket_def Let_def)
  have stored: "findById (req_id req) (snd (updateTicket req db)) = Some ?t"
    unfolding result using findById_replaceById [OF found id] by simp
  have same: "updateTicket req db = updateTicket (req\<lparr>req_body := restrictUpdates (req_body req)\<rparr>) db"
    using role by (rule updateTicket_restricted)
  show ?thesis
    using result stored same by (intro exI [of _ ?t]) simp
qed

theorem updateTicket_non_admin_fields_witness:
  "req_errors (request alice 0
       [''title'' \<mapsto> VStr ''Printer still on fire'', ''status'' \<mapsto> VStatus Closed,
        ''assignedTo'' \<mapsto> VUser (Some 7)]) = []
   \<and> findById 0 [firstTicket] = Some firstTicket
   \<and> user_role alice \<noteq> RoleAdmin
   \<and> createdBy firstTicket = user_id alice
   \<and> acceptsString 200 (Some (VStr ''Printer still on fire''))
   \<and> updateTicket (request alice 0
       [''title'' \<mapsto> VStr ''Printer still on fire'', ''status'' \<mapsto> VStatus Closed,
        ''assignedTo'' \<mapsto> VUser (Some 7)]) [firstTicket]
     = ((200, WithTicket ''Ticket updated successfully'' (firstTicket\<lparr>title := ''Printer still on fire''\<rparr>)),
        [firstTicket\<lparr>title := ''Printer still on fire''\<rparr>])"
proof -
  let ?p = "[''title'' \<mapsto> VStr ''Printer still on fire'', ''status'' \<mapsto> VStatus Closed,
             ''assignedTo'' \<mapsto> VUser (Some 7)]"
  let ?r = "request alice 0 ?p"
  have trimmed: "trim ''Printer still on fire'' = ''Printer still on fire''"
    by (simp add: trim_def isWhite_def)
  have h1: "req_errors ?r = []"
    by (simp add: example_requests)
  have h2: "findById (req_id ?r) [firstTicket] = Some firstTicket"
    by (simp add: example_requests firstTicket_fields)
  have h3: "user_role (req_user ?r) \<noteq> RoleAdmin"
    by (simp add: example_requests alice_def)
  have h4: "createdBy firstTicket = user_id (req_user ?r)
            \<or> assignedTo firstTicket = Some (user_id (req_user ?r))"
    by (simp add: example_requests alice_def firstTicket_fields)
  have h5: "acceptsString 200 (req_body ?r ''title'')"
    by (simp add: example_requests acceptsString_def trimmed)
  have h6: "acceptsString 2000 (req_body ?r ''description'')"
    by (simp add: example_requests acceptsString_def)
  have h7: "acceptsPriority (req_body ?r ''priority'')"
    by (simp add: example_requests acceptsPriority_def)
  have patched: "stringOr (title firstTicket) (req_body ?r ''title'') = ''Printer still on fire''"
    "stringOr (description firstTicket) (req_body ?r ''description'') = description firstTicket"
    "priorityOr (priority firstTicket) (req_body ?r ''priority'') = priority firstTicket"
    by (simp_all add: example_requests stringOr_def priorityOr_def trimmed)
  from updateTicket_non_admin_fields [OF h1 h2 h3 h4 h5 h6 h7]
  have "updateTicket ?r [firstTicket]
     = ((200, WithTicket ''Ticket updated successfully'' (firstTicket\<lparr>title := ''Printer still on fire''\<rparr>)),
        [firstTicket\<lparr>title := ''Printer still on fire''\<rparr>])"
    unfolding patched by (auto simp add: example_requests firstTicket_fields)
  then show ?thesis
    using h5 by (simp add: example_requests firstTicket_fields alice_def)
qed

subsection \<open>C5: an actor with no access to a ticket\<close>

text \<open>
  C5, as stated: for a non-admin actor who is neither creator nor assignee, the result
  of every operation on an existing ticket cannot be told from the result for a ticket
  id that does not exist. It does not hold: Bob gets 403 ``Access denied'' for Alice's
  ticket and 404 ``Ticket not found'' for an id that is not stored.
\<close>

theorem stranger_denied_differs_from_not_found:
  "getTicketById exampleUsers (request bob 0 ()) [firstTicket] = (403, Message ''Access denied'')
   \<and> getTicketById exampleUsers (request bob 1 ()) [firstTicket] = (404, Message ''Ticket not found'')"
  by (simp add: getTicketById_def example_requests firstTicket_fields bob_def populate_def exampleUsers_def)

text \<open>
  C5, amended: for an existing ticket (whose creator is a stored user) and a non-admin
  actor who is neither its creator nor its assignee, \<open>getTicketById\<close>, \<open>updateTicket\<close>
  and \<open>addComment\<close> answer 403 ``Access denied'' (the latter two 400 when the request
  carries validation errors), a body with no ticket content, and leave the collection
  unchanged; this answer differs from the 404 ``Ticket not found'' of an unknown id.
\<close>

theorem stranger_denied:
  assumes found: "findById i db = Some t"
    and role: "user_role u \<noteq> RoleAdmin"
    and stranger: "createdBy t \<noteq> user_id u" "assignedTo t \<noteq> Some (user_id u)"
    and creator: "createdBy t \<in> users"
  shows "getTicketById users \<lparr>req_errors = e1, req_user = u, req_id = i, req_body = (), req_files = f1\<rparr> db
           = (403, Message ''Access denied'')
       \<and> updateTicket \<lparr>req_errors = e2, req_user = u, req_id = i, req_body = p, req_files = f2\<rparr> db
           = (if e2 \<noteq> [] then ((400, ValidationFailed e2), db) else ((403, Message ''Access denied''), db))
       \<and> addComment now \<lparr>req_errors = e3, req_user = u, req_id = i, req_body = c, req_files = f3\<rparr> db
           = (if e3 \<noteq> [] then ((400, ValidationFailed e3), db) else ((403, Message ''Access denied''), db))
       \<and> getTicketById users \<lparr>req_errors = e1, req_user = u, req_id = i, req_body = (), req_files = f1\<rparr> db
           \<noteq> (404, Message ''Ticket not found'')"
proof -
  have get: "getTicketById users \<lparr>req_errors = e1, req_user = u, req_id = i, req_body = (), req_files = f1\<rparr> db
           = (403, Message ''Access denied'')"
    using assms by (cases "assignedTo t") (simp_all add: getTicketById_def populate_def)
  have upd: "updateTicket \<lparr>req_errors = e2, req_user = u, req_id = i, req_body = p, req_files = f2\<rparr> db
           = (if e2 \<noteq> [] then ((400, ValidationFailed e2), db) else ((403, Message ''Access denied''), db))"
    using assms by (simp add: updateTicket_def)
  have com: "addComment now \<lparr>req_errors = e3, req_user = u, req_id = i, req_body = c, req_files = f3\<rparr> db
           = (if e3 \<noteq> [] then ((400, ValidationFailed e3), db) else ((403, Message ''Access denied''), db))"
    using assms by (simp add: addComment_def)
  show ?thesis
    unfolding get upd com by simp
qed

theorem stranger_denied_witness:
  "findById 0 [firstTicket] = Some firstTicket
   \<and> user_role bob \<noteq> RoleAdmin
   \<and> createdBy firstTicket \<noteq> user_id bob \<and> assignedTo firstTicket \<noteq> Some (user_id bob)
   \<and> createdBy firstTicket \<in> exampleUsers
   \<and> updateTicket (request bob 0 [''status'' \<mapsto> VStatus Closed]) [firstTicket]
       = ((403, Message ''Access denied''), [firstTicket])
   \<and> addComment (exampleDay 6000) (request bob 0 \<lparr>b_message = ''Mine too'', b_isInternal = False\<rparr>) [firstTicket]
       = ((403, Message ''Access denied''), [firstTicket])"
proof -
  have h1: "findById 0 [firstTicket] = Some firstTicket"
    by (simp add: firstTicket_fields)
  have h2: "user_role bob \<noteq> RoleAdmin"
    by (simp add: bob_def)
  have h3: "createdBy firstTicket \<noteq> user_id bob"
    by (simp add: bob_def firstTicket_fields)
  have h4: "assignedTo firstTicket \<noteq> Some (user_id bob)"
    by (simp add: firstTicket_fields)
  have h5: "createdBy firstTicket \<in> exampleUsers"
    by (simp add: firstTicket_fields exampleUsers_def)
  show ?thesis
    using h1 h2 h3 h4 h5
      stranger_denied [OF h1 h2 h3 h4 h5, of "[]" None "[]" "[''status'' \<mapsto> VStatus Closed]" None
        "exampleDay 6000" "[]" "\<lparr>b_message = ''Mine too'', b_isInternal = False\<rparr>" None]
    by (simp add: request_def)
qed

subsection \<open>C6: the timestamps of Resolved and Closed\<close>

text \<open>
  C6. The first transition into Resolved should set \<open>resolvedAt\<close>. The hook that stamps
  it (``Update resolved/closed timestamps based on status'') is a hook of \<open>save\<close>, and
  the one operation that can set the status to Resolved or Closed, \<open>updateTicket\<close>,
  writes with \<open>findByIdAndUpdate\<close>, which runs no \<open>save\<close> hook. Here the administrator
  resolves Alice's ticket: the answer is 200, the stored status is Resolved, and
  \<open>resolvedAt\<close> is still unset; the hook, had it run, would have set it.
\<close>

theorem updateTicket_resolved_without_resolvedAt:
  "updateTicket (request adminUser 0 [''status'' \<mapsto> VStatus Resolved]) [firstTicket]
     = ((200, WithTicket ''Ticket updated successfully'' (firstTicket\<lparr>status := Resolved\<rparr>)),
        [firstTicket\<lparr>status := Resolved\<rparr>])
   \<and> resolvedAt (firstTicket\<lparr>status := Resolved\<rparr>) = None
   \<and> resolvedAt (timestampHook True (exampleDay 9000) (firstTicket\<lparr>status := Resolved\<rparr>))
       = Some (exampleDay 9000)"
proof -
  have "applyPaths schemaPaths [''status'' \<mapsto> VStatus Resolved] firstTicket
          = Inr (firstTicket\<lparr>status := Resolved\<rparr>)"
    by (simp add: schemaPaths_def)
  moreover have "[''status'' \<mapsto> VStatus Resolved] ''$set'' = None"
    by simp
  ultimately have "findByIdAndUpdate 0 [''status'' \<mapsto> VStatus Resolved] [firstTicket]
          = Inr (Some (firstTicket\<lparr>status := Resolved\<rparr>), [firstTicket\<lparr>status := Resolved\<rparr>])"
    by (simp add: findByIdAndUpdate_plain firstTicket_fields)
  then have "updateTicket (request adminUser 0 [''status'' \<mapsto> VStatus Resolved]) [firstTicket]
     = ((200, WithTicket ''Ticket updated successfully'' (firstTicket\<lparr>status := Resolved\<rparr>)),
        [firstTicket\<lparr>status := Resolved\<rparr>])"
    by (simp add: updateTicket_def example_requests firstTicket_fields adminUser_def)
  then show ?thesis
    by (simp add: firstTicket_fields timestampHook_def)
qed

subsection \<open>C7: who changes a ticket number\<close>

text \<open>
  C7, as stated: no operation after creation changes \<open>ticketNumber\<close>, \<open>updateTicket\<close>
  by any role included. It does not hold for an administrator, whose patch is passed to
  the store whole: a patch with the key \<open>ticketNumber\<close> replaces the number.
\<close>

theorem admin_patch_changes_ticketNumber:
  "map ticketNumber [firstTicket] = [Some ''TKT-20240105-0001'']
   \<and> fst (updateTicket (request adminUser 0 [''ticketNumber'' \<mapsto> VStr ''TKT-19990101-0042'']) [firstTicket])
       = (200, WithTicket ''Ticket updated successfully''
                 (firstTicket\<lparr>ticketNumber := Some ''TKT-19990101-0042''\<rparr>))
   \<and> map ticketNumber
        (snd (updateTicket (request adminUser 0 [''ticketNumber'' \<mapsto> VStr ''TKT-19990101-0042'']) [firstTicket]))
       = [Some ''TKT-19990101-0042'']"
proof -
  have "applyPaths schemaPaths [''ticketNumber'' \<mapsto> VStr ''TKT-19990101-0042''] firstTicket
          = Inr (firstTicket\<lparr>ticketNumber := Some ''TKT-19990101-0042''\<rparr>)"
    by (simp add: schemaPaths_def)
  moreover have "[''ticketNumber'' \<mapsto> VStr ''TKT-19990101-0042''] ''$set'' = None"
    by simp
  ultimately have "findByIdAndUpdate 0 [''ticketNumber'' \<mapsto> VStr ''TKT-19990101-0042''] [firstTicket]
          = Inr (Some (firstTicket\<lparr>ticketNumber := Some ''TKT-19990101-0042''\<rparr>),
                 [firstTicket\<lparr>ticketNumber := Some ''TKT-19990101-0042''\<rparr>])"
    by (simp add: findByIdAndUpdate_plain firstTicket_fields numberTaken_def)
  then show ?thesis
    by (simp add: updateTicket_def example_requests firstTicket_fields adminUser_def)
qed

text \<open>
  C7, amended: no operation other than an administrator's \<open>updateTicket\<close> changes the
  number of a stored ticket. In a collection whose tickets all have a number,
  \<open>updateTicket\<close> of a non-admin, whatever its patch holds, and \<open>addComment\<close> and
  \<open>assignTicket\<close> of any actor leave every stored \<open>ticketNumber\<close> as it is.
\<close>

theorem ticketNumber_frame:
  assumes numbered: "list_all (\<lambda>t. truthy (ticketNumber t)) db"
    and role: "user_role (req_user ureq) \<noteq> RoleAdmin"
  shows "map ticketNumber (snd (updateTicket ureq db)) = map ticketNumber db
       \<and> map ticketNumber (snd (addComment now creq db)) = map ticketNumber db
       \<and> map ticketNumber (snd (assignTicket users now areq db)) = map ticketNumber db"
  using updateTicket_ticketNumber [OF role, of db] addComment_ticketNumber [OF numbered, of now creq]
    assignTicket_ticketNumber [OF numbered, of users now areq]
  by blast

theorem ticketNumber_frame_witness:
  "list_all (\<lambda>t. truthy (ticketNumber t)) [firstTicket]
   \<and> user_role (req_user (request alice 0
        [''ticketNumber'' \<mapsto> VStr ''TKT-19990101-0042'',
         ''$set'' \<mapsto> VObject [''ticketNumber'' \<mapsto> VStr ''TKT-19990101-0042'']])) \<noteq> RoleAdmin
   \<and> map ticketNumber
        (snd (updateTicket (request alice 0
           [''ticketNumber'' \<mapsto> VStr ''TKT-19990101-0042'',
            ''$set'' \<mapsto> VObject [''ticketNumber'' \<mapsto> VStr ''TKT-19990101-0042'']]) [firstTicket]))
       = [Some ''TKT-20240105-0001'']
   \<and> map ticketNumber
        (snd (assignTicket exampleUsers (exampleDay 4000) (request adminUser 0 (Some 1)) [firstTicket]))
       = [Some ''TKT-20240105-0001'']"
proof -
  let ?r = "request alice 0
        [''ticketNumber'' \<mapsto> VStr ''TKT-19990101-0042'',
         ''$set'' \<mapsto> VObject [''ticketNumber'' \<mapsto> VStr ''TKT-19990101-0042'']]"
  have h: "list_all (\<lambda>t. truthy (ticketNumber t)) [firstTicket]"
    by (simp add: firstTicket_fields truthy_def)
  have r: "user_role (req_user ?r) \<noteq> RoleAdmin"
    by (simp add: example_requests alice_def)
  show ?thesis
    using h r
      ticketNumber_frame [OF h r, of "exampleDay 4000"
        "request alice 0 \<lparr>b_message = ''Any news?'', b_isInternal = True\<rparr>"
        exampleUsers "request adminUser 0 (Some 1)"]
    by (simp add: firstTicket_fields)
qed

subsection \<open>C8: the status after an assignment\<close>

text \<open>
  C8. For a stored ticket and an assignee that is \<^verbatim>\<open>null\<close> or a stored user,
  \<open>assignTicket\<close> answers 200 and stores the ticket with the new \<open>assignedTo\<close>; the
  status becomes In Progress when the assignee is not \<^verbatim>\<open>null\<close> and the status was Open,
  is left as it was when the assignee is not \<^verbatim>\<open>null\<close> and the status was another one,
  and is left as it was when \<open>assignedTo\<close> is cleared. Nothing else of the ticket
  changes.
\<close>

theorem assignTicket_status:
  assumes found: "findById (req_id req) db = Some t"
    and numbered: "truthy (ticketNumber t)"
    and exists: "case req_body req of None \<Rightarrow> True | Some a \<Rightarrow> a \<in> users"
  shows "\<exists>t'. assignTicket users now req db =
                 ((200, WithTicket ''Ticket assignment updated successfully'' t'),
                  replaceById (req_id req) t' db)
              \<and> assignedTo t' = req_body req
              \<and> (req_body req \<noteq> None \<and> status t = Open \<longrightarrow> status t' = InProgress)
              \<and> (req_body req \<noteq> None \<and> status t \<noteq> Open \<longrightarrow> status t' = status t)
              \<and> (req_body req = None \<longrightarrow> status t' = status t)
              \<and> t' = t\<lparr>assignedTo := req_body req, status := status t'\<rparr>"
proof -
  let ?t1 = "t\<lparr>assignedTo := req_body req\<rparr>"
  let ?t2 = "if req_body req \<noteq> None \<and> status ?t1 = Open then ?t1\<lparr>status := InProgress\<rparr> else ?t1"
  have id: "ticket_id ?t2 = req_id req"
    using findById_ticket_id [OF found] by simp
  have hook: "timestampHook (status ?t2 \<noteq> status t) now ?t2 = ?t2"
    by (cases "status t") (simp_all add: timestampHook_def)
  have num: "truthy (ticketNumber ?t2)"
    using numbered by simp
  have save: "saveExisting (status ?t2 \<noteq> status t) True now ?t2 db = Inr (?t2, replaceById (req_id req) ?t2 db)"
    using saveExisting_numbered [OF num hook, of True db] id by simp
  have ok: "\<not> (case req_body req of None \<Rightarrow> False | Some a \<Rightarrow> a \<notin> users)"
    using exists by (cases "req_body req") simp_all
  have "assignTicket users now req db =
          ((200, WithTicket ''Ticket assignment updated successfully'' ?t2), replaceById (req_id req) ?t2 db)"
    unfolding assignTicket_def Let_def using found ok save by simp
  then show ?thesis
    by (intro exI [of _ ?t2]) simp
qed

theorem assignTicket_status_witness:
  "findById (req_id (request adminUser 0 (Some (1::nat)))) [firstTicket] = Some firstTicket
   \<and> truthy (ticketNumber firstTicket)
   \<and> (1::nat) \<in> exampleUsers
   \<and> status firstTicket = Open
   \<and> assignTicket exampleUsers (exampleDay 4000) (request adminUser 0 (Some 1)) [firstTicket]
       = ((200, WithTicket ''Ticket assignment updated successfully''
                  (firstTicket\<lparr>assignedTo := Some 1, status := InProgress\<rparr>)),
          [firstTicket\<lparr>assignedTo := Some 1, status := InProgress\<rparr>])"
proof -
  let ?r = "request adminUser 0 (Some (1::nat))"
  have h1: "findById (req_id ?r) [firstTicket] = Some firstTicket"
    by (simp add: example_requests firstTicket_fields)
  have h2: "truthy (ticketNumber firstTicket)"
    by (simp add: firstTicket_fields truthy_def)
  have h3: "case req_body ?r of None \<Rightarrow> True | Some a \<Rightarrow> a \<in> exampleUsers"
    by (simp add: example_requests exampleUsers_def)
  from assignTicket_status [OF h1 h2 h3, of "exampleDay 4000"]
  obtain t' where res: "assignTicket exampleUsers (exampleDay 4000) ?r [firstTicket] =
                 ((200, WithTicket ''Ticket assignment updated successfully'' t'),
                  replaceById (req_id ?r) t' [firstTicket])"
    and st: "req_body ?r \<noteq> None \<and> status firstTicket = Open \<longrightarrow> status t' = InProgress"
    and eq: "t' = firstTicket\<lparr>assignedTo := req_body ?r, status := status t'\<rparr>"
    by blast
  have "status t' = InProgress"
    using st by (simp add: example_requests firstTicket_fields)
  with eq have "t' = firstTicket\<lparr>assignedTo := Some 1, status := InProgress\<rparr>"
    by (simp add: example_requests)
  with res h1 h2 show ?thesis
    by (simp add: example_requests firstTicket_fields exampleUsers_def)
qed

subsection \<open>C9: the flag of an added comment\<close>

text \<open>
  C9. For a permitted actor (administrator, creator or assignee), a request without
  validation errors and a message that passes the comment validators, \<open>addComment\<close>
  answers 200 with the appended comment, whose \<open>isInternal\<close> flag is the requested
  flag and-ed with ``the actor is an administrator'', and stores the ticket with this
  comment appended; so a non-admin's request for an internal comment is stored as a
  comment that is not internal, and is not rejected.
\<close>

theorem addComment_effective_flag:
  assumes errs: "req_errors req = []"
    and found: "findById (req_id req) db = Some t"
    and permitted: "user_role (req_user req) = RoleAdmin \<or> createdBy t = user_id (req_user req)
                    \<or> assignedTo t = Some (user_id (req_user req))"
    and numbered: "truthy (ticketNumber t)"
    and msg: "trim (b_message (req_body req)) \<noteq> []" "length (trim (b_message (req_body req))) \<le> 1000"
  shows "addComment now req db =
           ((200, WithComment ''Comment added successfully''
                    \<lparr>c_user = user_id (req_user req),
                     c_message = trim (b_message (req_body req)),
                     c_isInternal = (b_isInternal (req_body req) \<and> user_role (req_user req) = RoleAdmin),
                     c_createdAt = now\<rparr>),
            replaceById (req_id req)
              (t\<lparr>comments := comments t @
                   [\<lparr>c_user = user_id (req_user req),
                     c_message = trim (b_message (req_body req)),
                     c_isInternal = (b_isInternal (req_body req) \<and> user_role (req_user req) = RoleAdmin),
                     c_createdAt = now\<rparr>]\<rparr>) db)"
proof -
  let ?c = "\<lparr>c_user = user_id (req_user req),
             c_message = trim (b_message (req_body req)),
             c_isInternal = (user_role (req_user req) = RoleAdmin \<and> b_isInternal (req_body req)),
             c_createdAt = now\<rparr>"
  let ?t = "t\<lparr>comments := comments t @ [?c]\<rparr>"
  have id: "ticket_id t = req_id req"
    using found by (rule findById_ticket_id)
  have valid: "validComment ?c"
    using msg by (simp add: validComment_def)
  have "saveExisting False (validComment ?c) now ?t db = Inr (?t, replaceById (req_id req) ?t db)"
    using numbered valid id by (simp add: saveExisting_numbered timestampHook_unmodified)
  then show ?thesis
    using errs found permitted by (auto simp add: addComment_def Let_def conj_commute)
qed

theorem addComment_effective_flag_witness:
  "req_errors (request alice 0 \<lparr>b_message = ''Any news?'', b_isInternal = True\<rparr>) = []
   \<and> findById 0 [firstTicket] = Some firstTicket
   \<and> createdBy firstTicket = user_id alice
   \<and> truthy (ticketNumber firstTicket)
   \<and> trim ''Any news?'' = ''Any news?''
   \<and> addComment (exampleDay 6000) (request alice 0 \<lparr>b_message = ''Any news?'', b_isInternal = True\<rparr>)
        [firstTicket]
       = ((200, WithComment ''Comment added successfully''
                  \<lparr>c_user = 7, c_message = ''Any news?'', c_isInternal = False, c_createdAt = exampleDay 6000\<rparr>),
          [firstTicket\<lparr>comments :=
             [\<lparr>c_user = 7, c_message = ''Any news?'', c_isInternal = False, c_createdAt = exampleDay 6000\<rparr>]\<rparr>])"
proof -
  let ?r = "request alice 0 \<lparr>b_message = ''Any news?'', b_isInternal = True\<rparr>"
  have trimmed: "trim ''Any news?'' = ''Any news?''"
    by (simp add: trim_def isWhite_def)
  have h1: "req_errors ?r = []"
    by (simp add: example_requests)
  have h2: "findById (req_id ?r) [firstTicket] = Some firstTicket"
    by (simp add: example_requests firstTicket_fields)
  have h3: "user_role (req_user ?r) = RoleAdmin \<or> createdBy firstTicket = user_id (req_user ?r)
            \<or> assignedTo firstTicket = Some (user_id (req_user ?r))"
    by (simp add: example_requests firstTicket_fields alice_def)
  have h4: "truthy (ticketNumber firstTicket)"
    by (simp add: firstTicket_fields truthy_def)
  have h5: "trim (b_message (req_body ?r)) \<noteq> []"
    by (simp add: example_requests trimmed)
  have h6: "length (trim (b_message (req_body ?r))) \<le> 1000"
    by (simp add: example_requests trimmed)
  show ?thesis
    using h4 trimmed addComment_effective_flag [OF h1 h2 h3 h4 h5 h6, of "exampleDay 6000"]
    by (simp add: example_requests firstTicket_fields alice_def)
qed

subsection \<open>C10: the statistics leave out Waiting for Response\<close>

text \<open>
  C10. \<open>getTicketStats\<close> answers with an overview in which \<open>totalTickets\<close> is the number
  of all tickets and the four status counters count Open, In Progress, Resolved and
  Closed: their sum is the total less the number of tickets waiting for a response, and
  one more ticket in the status Waiting for Response raises the total by one and no
  other counter.
\<close>

theorem getTicketStats_omits_waiting:
  "getTicketStats db = (200, Statistics (statsOverview db) (groupCount priority db) (groupCount category db))
   \<and> totalTickets (statsOverview db) = length db
   \<and> openTickets (statsOverview db) + inProgressTickets (statsOverview db)
       + resolvedTickets (statsOverview db) + closedTickets (statsOverview db)
     = totalTickets (statsOverview db) - length (filter (\<lambda>t. status t = WaitingForResponse) db)
   \<and> length (filter (\<lambda>t. status t = WaitingForResponse) db) \<le> totalTickets (statsOverview db)
   \<and> statsOverview (t\<lparr>status := WaitingForResponse\<rparr> # db)
     = (statsOverview db)\<lparr>totalTickets := Suc (totalTickets (statsOverview db))\<rparr>"
proof -
  have "getTicketStats db = (200, Statistics (statsOverview db) (groupCount priority db) (groupCount category db))"
    by (simp add: getTicketStats_def)
  moreover have "totalTickets (statsOverview db) = length db"
    by (simp add: statsOverview_eq)
  moreover have "openTickets (statsOverview db) + inProgressTickets (statsOverview db)
       + resolvedTickets (statsOverview db) + closedTickets (statsOverview db)
     = totalTickets (statsOverview db) - length (filter (\<lambda>t. status t = WaitingForResponse) db)"
    using status_partition [of db] by (simp add: statsOverview_eq)
  moreover have "length (filter (\<lambda>t. status t = WaitingForResponse) db) \<le> totalTickets (statsOverview db)"
    by (simp add: statsOverview_eq)
  moreover have "statsOverview (t\<lparr>status := WaitingForResponse\<rparr> # db)
     = (statsOverview db)\<lparr>totalTickets := Suc (totalTickets (statsOverview db))\<rparr>"
    by (simp add: statsOverview_eq)
  ultimately show ?thesis by blast
qed

end
